theory Spec2Isabelle
  imports Complex_Main "HOL-Library.Multiset"
begin

section \<open>Python values, floats and exceptions\<close>

text \<open>
  A Python \<^verbatim>\<open>float\<close> is an IEEE binary64 value: not-a-number, an infinity, or a finite
  value, kept here by its exact rational value (signed zeros are not told apart).
  Rounding of an exact result to the nearest binary64 value is not fixed by this theory:
  every function that does float arithmetic takes the rounding function \<open>rnd\<close> as an
  argument, and every theorem holds for every \<open>rnd\<close>.
\<close>

datatype pyfloat = NaN | NegInf | Fin rat | PosInf

type_synonym rounding = "rat \<Rightarrow> pyfloat"

text \<open>
  The values that reach \<^verbatim>\<open>thz_to_hz\<close> and \<^verbatim>\<open>generate_tone\<close>: floats, ints
  (unbounded), bools (a subclass of \<^verbatim>\<open>int\<close>), and, as non-numeric values, strings and
  \<^verbatim>\<open>None\<close>.
\<close>

datatype pyval = PyFloat pyfloat | PyInt int | PyBool bool | PyStr string | PyNone

text \<open>
  The exceptions of the program, all subclasses of \<^verbatim>\<open>Exception\<close>:
  \<^item> \<open>InvalidFrequency v\<close> is \<^verbatim>\<open>ValueError(f"Invalid frequency value: {thz}")\<close>;
  \<^item> \<open>NoAudioData\<close> is \<^verbatim>\<open>ValueError("No audio data to export")\<close>;
  \<^item> \<open>AudioNotCreated p\<close> is \<^verbatim>\<open>RuntimeError(f"Audio file was not created: {output_path}")\<close>;
  \<^item> \<open>FileNotFound p\<close> is \<^verbatim>\<open>FileNotFoundError(f"File not found: {excel_path}")\<close>;
  \<^item> \<open>ColumnNotFound\<close> is \<^verbatim>\<open>ValueError(f"Column 'THz' not found. ...")\<close>;
  \<^item> \<open>NoFrequenciesFound\<close> is \<^verbatim>\<open>ValueError("No frequencies found in THz column")\<close>;
  \<^item> \<open>CouldNotReadExcel last_error\<close> is
    \<^verbatim>\<open>ValueError(f"Could not read Excel file. Last error: {str(last_error)}")\<close>;
  \<^item> \<open>EmptyArray\<close> is the \<^verbatim>\<open>ValueError\<close> of \<^verbatim>\<open>np.min\<close> and \<^verbatim>\<open>np.max\<close> on an empty array;
  \<^item> \<open>TypeError\<close> and \<open>OverflowError\<close> are raised by Python and numpy primitives;
  \<^item> \<open>LibraryError m\<close> is any other exception raised inside pydub, the encoder, the
    \<^verbatim>\<open>os\<close> module or the PDF generator.
\<close>

datatype exn =
    InvalidFrequency pyval
  | NoAudioData
  | AudioNotCreated string
  | FileNotFound string
  | ColumnNotFound
  | NoFrequenciesFound
  | CouldNotReadExcel "exn option"
  | EmptyArray
  | TypeError
  | OverflowError
  | LibraryError string

text \<open>Sequencing of fallible steps: the first exception ends the computation.\<close>

definition and_then :: "exn + 'a \<Rightarrow> ('a \<Rightarrow> exn + 'b) \<Rightarrow> exn + 'b" where
  "and_then r f = (case r of Inl e \<Rightarrow> Inl e | Inr x \<Rightarrow> f x)"

subsection \<open>Float primitives\<close>

text \<open>IEEE comparison: every comparison with NaN is false.\<close>

fun flt :: "pyfloat \<Rightarrow> pyfloat \<Rightarrow> bool" where
  "flt NaN y = False"
| "flt x NaN = False"
| "flt NegInf NegInf = False"
| "flt NegInf y = True"
| "flt (Fin a) NegInf = False"
| "flt (Fin a) (Fin b) = (a < b)"
| "flt (Fin a) PosInf = True"
| "flt PosInf y = False"

definition fle :: "pyfloat \<Rightarrow> pyfloat \<Rightarrow> bool" where
  "fle x y = (x \<noteq> NaN \<and> y \<noteq> NaN \<and> \<not> flt y x)"

text \<open>The sign of a non-NaN float, as \<open>-1\<close>, \<open>0\<close> or \<open>1\<close>.\<close>

fun fsign :: "pyfloat \<Rightarrow> int" where
  "fsign NaN = 0"
| "fsign NegInf = - 1"
| "fsign PosInf = 1"
| "fsign (Fin a) = (if a < 0 then - 1 else if a = 0 then 0 else 1)"

text \<open>
  IEEE multiplication: NaN is absorbing, infinity times zero is NaN, infinity times a
  non-zero value is the infinity of the product's sign, and a finite product is the exact
  product, rounded.
\<close>

fun fmul :: "rounding \<Rightarrow> pyfloat \<Rightarrow> pyfloat \<Rightarrow> pyfloat" where
  "fmul rnd NaN y = NaN"
| "fmul rnd x NaN = NaN"
| "fmul rnd (Fin a) (Fin b) = rnd (a * b)"
| "fmul rnd x y =
     (if fsign x * fsign y = 0 then NaN
      else if fsign x * fsign y < 0 then NegInf else PosInf)"

text \<open>
  \<^verbatim>\<open>isinstance(thz, (int, float))\<close>: true of floats, ints and bools.
\<close>

fun isinstance_int_float :: "pyval \<Rightarrow> bool" where
  "isinstance_int_float (PyFloat x) = True"
| "isinstance_int_float (PyInt i) = True"
| "isinstance_int_float (PyBool b) = True"
| "isinstance_int_float v = False"

text \<open>
  \<^verbatim>\<open>np.isnan\<close> on a Python scalar. numpy converts an int to a 64-bit integer array
  element first; an int outside the signed and unsigned 64-bit ranges becomes an object
  array, on which \<^verbatim>\<open>isnan\<close> raises \<^verbatim>\<open>TypeError\<close>, as it does on a string or
  \<^verbatim>\<open>None\<close>.
\<close>

fun np_isnan :: "pyval \<Rightarrow> exn + bool" where
  "np_isnan (PyFloat x) = Inr (x = NaN)"
| "np_isnan (PyInt i) = (if - (2 ^ 63) \<le> i \<and> i < 2 ^ 64 then Inr False else Inl TypeError)"
| "np_isnan (PyBool b) = Inr False"
| "np_isnan v = Inl TypeError"

text \<open>
  The conversion of the left operand of \<^verbatim>\<open>thz * 1e12\<close> to a float: an int is rounded,
  and raises \<^verbatim>\<open>OverflowError\<close> when it is too large for a float.
\<close>

fun to_float :: "rounding \<Rightarrow> pyval \<Rightarrow> exn + pyfloat" where
  "to_float rnd (PyFloat x) = Inr x"
| "to_float rnd (PyInt i) =
     (case rnd (of_int i) of Fin q \<Rightarrow> Inr (Fin q) | _ \<Rightarrow> Inl OverflowError)"
| "to_float rnd (PyBool b) = Inr (Fin (if b then 1 else 0))"
| "to_float rnd v = Inl TypeError"

text \<open>\<^verbatim>\<open>v * c\<close> for a float constant \<open>c\<close>.\<close>

definition py_mul_float :: "rounding \<Rightarrow> pyval \<Rightarrow> pyfloat \<Rightarrow> exn + pyval" where
  "py_mul_float rnd v c = and_then (to_float rnd v) (\<lambda>x. Inr (PyFloat (fmul rnd x c)))"

text \<open>
  The numeric value of an operand of \<^verbatim>\<open><\<close> and \<^verbatim>\<open>>\<close>: Python compares an int with
  a float by their exact values.
\<close>

fun numeric_value :: "pyval \<Rightarrow> pyfloat option" where
  "numeric_value (PyFloat x) = Some x"
| "numeric_value (PyInt i) = Some (Fin (of_int i))"
| "numeric_value (PyBool b) = Some (Fin (if b then 1 else 0))"
| "numeric_value v = None"

text \<open>
  \<^verbatim>\<open>a < b\<close> where one operand is a number (in this program one operand is always an int
  constant of \<^verbatim>\<open>Config\<close>): a string or \<^verbatim>\<open>None\<close> on the other side raises
  \<^verbatim>\<open>TypeError\<close>.
\<close>

definition py_lt :: "pyval \<Rightarrow> pyval \<Rightarrow> exn + bool" where
  "py_lt a b =
     (case (numeric_value a, numeric_value b) of
        (Some x, Some y) \<Rightarrow> Inr (flt x y)
      | _ \<Rightarrow> Inl TypeError)"

text \<open>
  The builtins \<^verbatim>\<open>max(a, b)\<close> and \<^verbatim>\<open>min(a, b)\<close>: the first argument is kept unless
  the second is strictly greater (\<^verbatim>\<open>b > a\<close>, which on numbers is \<^verbatim>\<open>a < b\<close>) or strictly
  smaller (\<^verbatim>\<open>b < a\<close>). With a NaN on either side the comparison is false and the first
  argument is kept.
\<close>

definition py_max :: "pyval \<Rightarrow> pyval \<Rightarrow> exn + pyval" where
  "py_max a b = and_then (py_lt a b) (\<lambda>c. Inr (if c then b else a))"

definition py_min :: "pyval \<Rightarrow> pyval \<Rightarrow> exn + pyval" where
  "py_min a b = and_then (py_lt b a) (\<lambda>c. Inr (if c then b else a))"

section \<open>Config\<close>

definition TOTAL_DURATION_SECONDS :: nat where "TOTAL_DURATION_SECONDS = 30"
definition DEFAULT_VOLUME :: int where "DEFAULT_VOLUME = - 10"
definition MIN_FREQUENCY_HZ :: int where "MIN_FREQUENCY_HZ = 18000"
definition MAX_FREQUENCY_HZ :: int where "MAX_FREQUENCY_HZ = 22000"
definition SAMPLE_RATE :: nat where "SAMPLE_RATE = 44100"

section \<open>The Frequency Mapper\<close>

definition thz_to_hz :: "rounding \<Rightarrow> pyval \<Rightarrow> exn + pyval" where
  "thz_to_hz rnd thz =
     (if \<not> isinstance_int_float thz then Inl (InvalidFrequency thz)
      else and_then (np_isnan thz) (\<lambda>nan.
        if nan then Inl (InvalidFrequency thz)
        else py_mul_float rnd thz (Fin (10 ^ 12))))"

section \<open>The audio library (pydub)\<close>

text \<open>
  Every \<^verbatim>\<open>AudioSegment\<close> of this program is mono, 16-bit and at \<open>SAMPLE_RATE\<close>
  (both \<^verbatim>\<open>AudioSegment.silent\<close> and \<^verbatim>\<open>Sine\<close> are given that rate), so a segment is
  its list of signed 16-bit samples, and \<^verbatim>\<open>overlay\<close> never has to convert one of its
  operands.
\<close>

record audio_segment =
  samples :: "int list"

text \<open>Python's \<^verbatim>\<open>round\<close> of the quotient \<open>a / b\<close>: to the nearest integer, ties to even.\<close>

definition round_half_even :: "nat \<Rightarrow> nat \<Rightarrow> nat" where
  "round_half_even a b =
     (let q = a div b; r = a mod b
      in if 2 * r < b then q else if b < 2 * r then q + 1
         else if even q then q else q + 1)"

text \<open>\<^verbatim>\<open>len(segment)\<close>: the duration in milliseconds, \<^verbatim>\<open>round(1000 * frame_count / frame_rate)\<close>.\<close>

definition seg_len :: "audio_segment \<Rightarrow> nat" where
  "seg_len s = round_half_even (1000 * length (samples s)) SAMPLE_RATE"

text \<open>
  \<^verbatim>\<open>AudioSegment.silent(duration, frame_rate)\<close>: \<^verbatim>\<open>int(frame_rate * (duration / 1000.0))\<close>
  frames of zeros.
\<close>

definition silent :: "nat \<Rightarrow> audio_segment" where
  "silent duration = \<lparr>samples = replicate ((SAMPLE_RATE * duration) div 1000) 0\<rparr>"

text \<open>
  \<^verbatim>\<open>audioop.add\<close> on 16-bit samples: the sum is truncated to the range of a signed
  16-bit integer.
\<close>

definition sat16 :: "int \<Rightarrow> int" where
  "sat16 v = (if v > 32767 then 32767 else if v < - 32768 then - 32768 else v)"

text \<open>
  \<^verbatim>\<open>seg1.overlay(seg2)\<close> at position 0, without looping: the samples of \<open>seg2\<close> are
  added to those of \<open>seg1\<close> with \<^verbatim>\<open>audioop.add\<close>; what \<open>seg2\<close> has beyond the end of
  \<open>seg1\<close> is dropped, and what \<open>seg1\<close> has beyond the end of \<open>seg2\<close> is kept as it is.
\<close>

fun overlay_samples :: "int list \<Rightarrow> int list \<Rightarrow> int list" where
  "overlay_samples [] ts = []"
| "overlay_samples (m # ms) [] = m # ms"
| "overlay_samples (m # ms) (t # ts) = sat16 (m + t) # overlay_samples ms ts"

definition overlay :: "audio_segment \<Rightarrow> audio_segment \<Rightarrow> audio_segment" where
  "overlay seg1 seg2 = seg1\<lparr>samples := overlay_samples (samples seg1) (samples seg2)\<rparr>"

text \<open>
  \<^verbatim>\<open>Sine(freq, sample_rate=...).to_audio_segment(duration=..., volume=...)\<close>. The waveform
  itself (\<^verbatim>\<open>int(math.sin(...) * 32767 * gain)\<close> for sample \<open>n\<close>) is floating-point code of
  the library and is a parameter: a \<open>sine_generator\<close> takes the frequency, the sample rate
  and the volume in dB, and gives either the exception the library raises or the 16-bit
  sample at every index. The segment has \<^verbatim>\<open>int(sample_rate * (duration / 1000.0))\<close>
  samples.
\<close>

type_synonym sine_generator = "pyval \<Rightarrow> nat \<Rightarrow> int \<Rightarrow> exn + (nat \<Rightarrow> int)"

definition to_audio_segment :: "sine_generator \<Rightarrow> pyval \<Rightarrow> nat \<Rightarrow> exn + audio_segment" where
  "to_audio_segment sine freq duration =
     and_then (sine freq SAMPLE_RATE DEFAULT_VOLUME)
       (\<lambda>w. Inr \<lparr>samples = map w [0..<(SAMPLE_RATE * duration) div 1000]\<rparr>)"

section \<open>The Tone Synthesizer\<close>

text \<open>
  Line 44 of \<^verbatim>\<open>generate_tone\<close>:
  \<^verbatim>\<open>min(max(frequency_hz, Config.MIN_FREQUENCY_HZ), Config.MAX_FREQUENCY_HZ)\<close>.
\<close>

definition clamp_frequency :: "pyval \<Rightarrow> exn + pyval" where
  "clamp_frequency frequency_hz =
     and_then (py_max frequency_hz (PyInt MIN_FREQUENCY_HZ))
       (\<lambda>m. py_min m (PyInt MAX_FREQUENCY_HZ))"

text \<open>
  \<^verbatim>\<open>generate_tone\<close>: the \<^verbatim>\<open>except\<close> clause logs and raises the same exception again, so
  the result is the exception of the body.
\<close>

definition generate_tone :: "sine_generator \<Rightarrow> pyval \<Rightarrow> nat \<Rightarrow> exn + audio_segment" where
  "generate_tone sine frequency_hz duration_ms =
     and_then (clamp_frequency frequency_hz)
       (\<lambda>freq. to_audio_segment sine freq duration_ms)"

section \<open>The generator\<close>

text \<open>
  A \<^verbatim>\<open>NeuroAudioGenerator\<close> has one attribute, \<^verbatim>\<open>self.audio_segment\<close>. The calls of
  the logger write lines and change nothing else; they are left out of the model.
\<close>

record generator =
  audio_segment :: audio_segment

text \<open>\<^verbatim>\<open>NeuroAudioGenerator.__init__\<close>.\<close>

definition init :: generator where
  "init = \<lparr>audio_segment = silent (TOTAL_DURATION_SECONDS * 1000)\<rparr>"

section \<open>The Mix Engine\<close>

text \<open>
  The body of the \<^verbatim>\<open>try\<close> block of \<^verbatim>\<open>add_frequencies\<close> for one item, up to the
  overlay: the tone of the item, or the exception of \<^verbatim>\<open>thz_to_hz\<close> or
  \<^verbatim>\<open>generate_tone\<close>.
\<close>

definition tone_of :: "rounding \<Rightarrow> sine_generator \<Rightarrow> pyval \<Rightarrow> exn + audio_segment" where
  "tone_of rnd sine thz =
     and_then (thz_to_hz rnd thz)
       (\<lambda>hz. generate_tone sine hz (TOTAL_DURATION_SECONDS * 1000))"

text \<open>
  \<^verbatim>\<open>add_frequencies\<close>: the loop over the list. An exception of the body is caught by
  \<^verbatim>\<open>except Exception\<close> (a warning is logged) and the loop goes on with the next item and
  the segment as it was.
\<close>

fun add_frequencies :: "rounding \<Rightarrow> sine_generator \<Rightarrow> generator \<Rightarrow> pyval list \<Rightarrow> generator" where
  "add_frequencies rnd sine self [] = self"
| "add_frequencies rnd sine self (thz # rest) =
     (case tone_of rnd sine thz of
        Inl e \<Rightarrow> add_frequencies rnd sine self rest
      | Inr tone \<Rightarrow>
          add_frequencies rnd sine
            (self\<lparr>audio_segment := overlay (audio_segment self) tone\<rparr>) rest)"

section \<open>The Exporter\<close>

text \<open>\<^verbatim>\<open>os.path.dirname\<close> and \<^verbatim>\<open>os.path.join\<close> of two components (posixpath).\<close>

definition dirname :: "string \<Rightarrow> string" where
  "dirname p =
     (let head = rev (dropWhile (\<lambda>c. c \<noteq> CHR ''/'') (rev p))
      in if head \<noteq> [] \<and> \<not> list_all (\<lambda>c. c = CHR ''/'') head
         then rev (dropWhile (\<lambda>c. c = CHR ''/'') (rev head)) else head)"

definition os_path_join :: "string \<Rightarrow> string \<Rightarrow> string" where
  "os_path_join a b =
     (if b \<noteq> [] \<and> hd b = CHR ''/'' then b
      else if a = [] \<or> last a = CHR ''/'' then a @ b
      else a @ ''/'' @ b)"

text \<open>
  The file system maps the path of a file to its size in bytes: \<^verbatim>\<open>os.path.exists\<close> is
  membership in its domain, \<^verbatim>\<open>os.path.getsize\<close> the size stored there.
  The operating system and the encoder are parameters: \<^verbatim>\<open>os.makedirs(dir, exist_ok=True)\<close>
  and \<^verbatim>\<open>AudioSegment.export(path, format="mp3", bitrate=..., tags=...)\<close> each either raise
  or leave a file system behind. An encoder may return without an exception and without
  having written the file, or having written an empty one.
\<close>

type_synonym filesystem = "string \<rightharpoonup> nat"
type_synonym makedirs = "string \<Rightarrow> filesystem \<Rightarrow> exn + filesystem"
type_synonym exporter = "audio_segment \<Rightarrow> string \<Rightarrow> filesystem \<Rightarrow> exn + filesystem"

text \<open>
  \<^verbatim>\<open>save_audio\<close>. Its \<^verbatim>\<open>except\<close> clause logs and raises the same exception again. The
  size of the file is read only for the log line.
\<close>

definition save_audio :: "makedirs \<Rightarrow> exporter \<Rightarrow> generator \<Rightarrow> string \<Rightarrow> filesystem \<Rightarrow> exn + filesystem" where
  "save_audio os_makedirs export self output_path fs =
     and_then (os_makedirs (dirname output_path) fs) (\<lambda>fs1.
       if seg_len (audio_segment self) = 0 then Inl NoAudioData
       else and_then (export (audio_segment self) output_path fs1) (\<lambda>fs2.
         if fs2 output_path = None then Inl (AudioNotCreated output_path)
         else Inr fs2))"

section \<open>Loading and the main program\<close>

text \<open>
  \<^verbatim>\<open>pd.read_excel(path, engine=...)\<close> is a parameter: it raises or gives the data frame,
  here the list of its columns, each a name and its float64 values (an empty cell is NaN).
\<close>

type_synonym dataframe = "(string \<times> pyfloat list) list"
type_synonym excel_reader = "string \<Rightarrow> string \<Rightarrow> exn + dataframe"

definition REQUIRED_EXCEL_COLUMN :: string where "REQUIRED_EXCEL_COLUMN = ''THz''"

text \<open>The body of the inner \<^verbatim>\<open>try\<close> of \<^verbatim>\<open>load_frequencies\<close>, for one engine.\<close>

definition read_with :: "excel_reader \<Rightarrow> string \<Rightarrow> string \<Rightarrow> exn + pyfloat list" where
  "read_with read_excel excel_path engine =
     and_then (read_excel excel_path engine) (\<lambda>df.
       case map_of df REQUIRED_EXCEL_COLUMN of
         None \<Rightarrow> Inl ColumnNotFound
       | Some column \<Rightarrow>
           (let freqs = filter (\<lambda>x. x \<noteq> NaN) column
            in if length freqs = 0 then Inl NoFrequenciesFound else Inr freqs))"

text \<open>The loop over the engines: any exception is kept as \<^verbatim>\<open>last_error\<close> and the next engine is tried.\<close>

fun try_engines :: "excel_reader \<Rightarrow> string \<Rightarrow> string list \<Rightarrow> exn option \<Rightarrow> exn + pyfloat list" where
  "try_engines read_excel excel_path [] last_error = Inl (CouldNotReadExcel last_error)"
| "try_engines read_excel excel_path (engine # engines) last_error =
     (case read_with read_excel excel_path engine of
        Inr freqs \<Rightarrow> Inr freqs
      | Inl e \<Rightarrow> try_engines read_excel excel_path engines (Some e))"

definition load_frequencies :: "excel_reader \<Rightarrow> string \<Rightarrow> filesystem \<Rightarrow> exn + pyfloat list" where
  "load_frequencies read_excel excel_path fs =
     (if fs excel_path = None then Inl (FileNotFound excel_path)
      else try_engines read_excel excel_path [''openpyxl'', ''xlrd''] None)"

text \<open>
  \<^verbatim>\<open>np.min\<close> and \<^verbatim>\<open>np.max\<close> of a float64 array: a \<^verbatim>\<open>ValueError\<close> on an empty array, NaN
  when the array holds a NaN, the least (greatest) element otherwise.
\<close>

definition np_min :: "pyfloat list \<Rightarrow> exn + pyfloat" where
  "np_min xs =
     (case xs of
        [] \<Rightarrow> Inl EmptyArray
      | x # rest \<Rightarrow>
          if NaN \<in> set xs then Inr NaN
          else Inr (foldl (\<lambda>a b. if flt b a then b else a) x rest))"

definition np_max :: "pyfloat list \<Rightarrow> exn + pyfloat" where
  "np_max xs =
     (case xs of
        [] \<Rightarrow> Inl EmptyArray
      | x # rest \<Rightarrow>
          if NaN \<in> set xs then Inr NaN
          else Inr (foldl (\<lambda>a b. if flt a b then b else a) x rest))"

text \<open>\<^verbatim>\<open>str.split(sep)\<close> for a separator of one character.\<close>

fun split_on :: "char \<Rightarrow> string \<Rightarrow> string list" where
  "split_on sep [] = [[]]"
| "split_on sep (c # cs) =
     (if c = sep then [] # split_on sep cs
      else (case split_on sep cs of
              [] \<Rightarrow> [[c]]
            | w # ws \<Rightarrow> (c # w) # ws))"

text \<open>The company name that \<^verbatim>\<open>main\<close> takes from the original file name.\<close>

definition company_of :: "string \<Rightarrow> string" where
  "company_of original_name =
     (let company_match = split_on CHR ''_'' original_name
      in if length company_match > 2
         then hd (split_on CHR ''.'' (last company_match)) else ''Unknown'')"

text \<open>The dictionary that \<^verbatim>\<open>main\<close> prints on success.\<close>

record result =
  frequency_count :: nat
  audio_file :: string
  pdf_file :: string
  frequency_min :: pyfloat
  frequency_max :: pyfloat
  aroma_id :: string
  company_name :: string

text \<open>
  What \<^verbatim>\<open>main\<close> calls outside this file and the libraries above:
  \<^verbatim>\<open>generate_pdf_report(freq_list, pdf_filename, aroma_id, company_name, output_dir)\<close> of
  \<^verbatim>\<open>pdf_generator.py\<close> lays out a PDF with a library and is a parameter, which raises or
  leaves a file system behind.
\<close>

type_synonym pdf_reporter =
  "pyval list \<Rightarrow> string \<Rightarrow> string \<Rightarrow> string \<Rightarrow> string \<Rightarrow> filesystem \<Rightarrow> exn + filesystem"

record platform =
  the_rounding :: rounding
  the_sine :: sine_generator
  the_makedirs :: makedirs
  the_exporter :: exporter
  the_reader :: excel_reader
  the_pdf_reporter :: pdf_reporter

text \<open>
  The \<^verbatim>\<open>try\<close> block of \<^verbatim>\<open>main\<close>, given the three command-line arguments, the file
  system, and the ten characters \<open>new_id\<close> that \<^verbatim>\<open>uuid.uuid4().hex[:10].upper()\<close>
  gives. An exception makes \<^verbatim>\<open>main\<close> print the error dictionary and exit with status 1;
  otherwise the result dictionary is printed. The generator at the end is returned with
  the result.
\<close>

definition main :: "platform \<Rightarrow> string \<Rightarrow> string \<Rightarrow> string \<Rightarrow> filesystem \<Rightarrow> exn + (result \<times> generator)" where
  "main P excel_path original_name new_id fs =
     (let company = company_of original_name;
          output_dir = os_path_join ''output'' company
      in and_then (the_makedirs P output_dir fs) (\<lambda>fs1.
         and_then (load_frequencies (the_reader P) excel_path fs1) (\<lambda>frequencies.
           let freq_list = map PyFloat frequencies;
               gen = add_frequencies (the_rounding P) (the_sine P) init freq_list;
               audio_filename = ''NeuroAudio_'' @ company @ ''_'' @ new_id @ ''.mp3'';
               pdf_filename = ''Report_'' @ company @ ''_'' @ new_id @ ''.pdf'';
               audio_path = os_path_join output_dir audio_filename
           in and_then (save_audio (the_makedirs P) (the_exporter P) gen audio_path fs1) (\<lambda>fs2.
              and_then (the_pdf_reporter P freq_list pdf_filename new_id company output_dir fs2) (\<lambda>fs3.
              and_then (np_min frequencies) (\<lambda>lo.
              and_then (np_max frequencies) (\<lambda>hi.
                Inr (\<lparr>frequency_count = length frequencies,
                      audio_file = audio_filename,
                      pdf_file = pdf_filename,
                      frequency_min = lo,
                      frequency_max = hi,
                      aroma_id = new_id,
                      company_name = company\<rparr>, gen))))))))"

section \<open>Notions used in the statements\<close>

text \<open>A value lies in the band when it is a number between the two bounds of \<^verbatim>\<open>Config\<close>.\<close>

definition in_band :: "pyval \<Rightarrow> bool" where
  "in_band x =
     (case numeric_value x of
        None \<Rightarrow> False
      | Some y \<Rightarrow> fle (Fin (of_int MIN_FREQUENCY_HZ)) y \<and> fle y (Fin (of_int MAX_FREQUENCY_HZ)))"

text \<open>The tones of the items of a list that raise nothing, in the order of the list.\<close>

fun tones :: "rounding \<Rightarrow> sine_generator \<Rightarrow> pyval list \<Rightarrow> audio_segment list" where
  "tones rnd sine [] = []"
| "tones rnd sine (thz # rest) =
     (case tone_of rnd sine thz of
        Inl e \<Rightarrow> tones rnd sine rest
      | Inr tone \<Rightarrow> tone # tones rnd sine rest)"

text \<open>The sample of a segment at an index, zero beyond its end.\<close>

definition sample_at :: "audio_segment \<Rightarrow> nat \<Rightarrow> int" where
  "sample_at t i = (if i < length (samples t) then samples t ! i else 0)"



text \<open>
  A buffer has headroom for a list of tones when, at every index, the magnitudes of its
  sample and of the tones' samples add up to no more than the largest 16-bit sample: then
  no sum of some of them, taken in any order, is clipped.
\<close>

definition headroom :: "audio_segment \<Rightarrow> audio_segment list \<Rightarrow> bool" where
  "headroom m ts =
     (\<forall>i < length (samples m). \<bar>samples m ! i\<bar> + (\<Sum>t\<leftarrow>ts. \<bar>sample_at t i\<bar>) \<le> 32767)"

section \<open>An example platform\<close>

text \<open>
  A sine generator known at the two bounds of the band and at one sample index: at
  \<open>-10\<close> dB and 44100 samples per second, sample 215 of the library's sine is \<open>10353\<close> at
  22000 Hz and \<open>-10356\<close> at 18000 Hz
  (\<^verbatim>\<open>int(math.sin((f * 2 * math.pi) / 44100 * 215) * 32767 * 10 ** (-10 / 20))\<close>, the
  expression of the library's generator).
  The other samples are given as zero, and any other frequency raises.
\<close>

definition sine_at_215 :: sine_generator where
  "sine_at_215 freq rate volume =
     (if numeric_value freq = Some (Fin 22000) then Inr (\<lambda>n. if n = 215 then 10353 else 0)
      else if numeric_value freq = Some (Fin 18000) then Inr (\<lambda>n. if n = 215 then - 10356 else 0)
      else Inl (LibraryError ''frequency not tabulated''))"

text \<open>The two tones of thirty seconds that this generator gives.\<close>

definition tone22 :: audio_segment where
  "tone22 = \<lparr>samples = map (\<lambda>n. if n = 215 then 10353 else 0) [0..<1323000]\<rparr>"

definition tone18 :: audio_segment where
  "tone18 = \<lparr>samples = map (\<lambda>n. if n = 215 then - 10356 else 0) [0..<1323000]\<rparr>"

text \<open>
  An operating system on which every directory can be made; an encoder that writes a file
  of \<open>n\<close> bytes; an encoder that returns without writing anything.
\<close>

definition easy_makedirs :: makedirs where
  "easy_makedirs dir fs = Inr fs"

definition writing_exporter :: "nat \<Rightarrow> exporter" where
  "writing_exporter n seg path fs = Inr (fs(path \<mapsto> n))"

definition idle_exporter :: exporter where
  "idle_exporter seg path fs = Inr fs"

text \<open>
  A platform whose spreadsheet has one column of four cells (one of them empty), whose
  encoder writes a file of zero bytes without raising, whose report is written, and on
  which finite products are exact.
\<close>

definition example_platform :: platform where
  "example_platform =
     \<lparr>the_rounding = Fin,
      the_sine = sine_at_215,
      the_makedirs = easy_makedirs,
      the_exporter = writing_exporter 0,
      the_reader = (\<lambda>path engine.
         if engine = ''openpyxl''
         then Inr [(''THz'', [Fin 1, NaN, Fin (1 / 50000000), Fin 0])]
         else Inl (LibraryError ''engine not installed'')),
      the_pdf_reporter = (\<lambda>freqs name ident company dir fs.
         Inr (fs(os_path_join dir name \<mapsto> 1)))\<rparr>"

section \<open>The Frequency Mapper: conversion and validation\<close>



section \<open>The Tone Synthesizer: the clamp\<close>

lemmas clamp_unfold =
  clamp_frequency_def and_then_def py_max_def py_min_def py_lt_def
  MIN_FREQUENCY_HZ_def MAX_FREQUENCY_HZ_def

text \<open>
  Claim C6. Clamping twice is clamping once, for every value: where the clamp returns a
  value, clamping that value returns it again (a NaN passes through the clamp as it is),
  and where the clamp raises, so does the composition. On every number in the band
  \<open>[18000, 22000]\<close> the clamp returns its argument.
\<close>

theorem clamp_idempotent_and_identity_in_band:
  "and_then (clamp_frequency x) clamp_frequency = clamp_frequency x
   \<and> (in_band x \<longrightarrow> clamp_frequency x = Inr x)"
proof (cases x)
  case (PyFloat f)
  then show ?thesis
    by (cases f) (auto simp: clamp_unfold in_band_def fle_def)
qed (auto simp: clamp_unfold in_band_def fle_def)

theorem clamp_idempotent_and_identity_in_band_witness:
  "in_band (PyFloat (Fin (40001 / 2)))
   \<and> clamp_frequency (PyFloat (Fin (40001 / 2))) = Inr (PyFloat (Fin (40001 / 2)))
   \<and> and_then (clamp_frequency (PyInt 5)) clamp_frequency = Inr (PyInt 18000)"
proof -
  have band: "in_band (PyFloat (Fin (40001 / 2)))"
    by (simp add: in_band_def fle_def MIN_FREQUENCY_HZ_def MAX_FREQUENCY_HZ_def)
  have low: "clamp_frequency (PyInt 5) = Inr (PyInt 18000)"
    by (simp add: clamp_unfold)
  show ?thesis
    using band low
      clamp_idempotent_and_identity_in_band [of "PyFloat (Fin (40001 / 2))"]
      clamp_idempotent_and_identity_in_band [of "PyInt 5"]
    by simp
qed

section \<open>Infinite inputs\<close>

text \<open>
  Claim C10. An infinite float passes the validation of \<^verbatim>\<open>thz_to_hz\<close>: the result is the
  infinity of the same sign, which \<^verbatim>\<open>generate_tone\<close> clamps to the bound of the band on
  that side, 22000 for \<open>+\<infinity>\<close> and 18000 for \<open>-\<infinity>\<close>, before it calls the sine generator.
  NaN, a string and \<^verbatim>\<open>None\<close> are rejected.
\<close>

theorem infinity_passes_and_is_clamped:
  "thz_to_hz rnd (PyFloat PosInf) = Inr (PyFloat PosInf)
   \<and> thz_to_hz rnd (PyFloat NegInf) = Inr (PyFloat NegInf)
   \<and> clamp_frequency (PyFloat PosInf) = Inr (PyInt 22000)
   \<and> clamp_frequency (PyFloat NegInf) = Inr (PyInt 18000)
   \<and> generate_tone sine (PyFloat PosInf) d = to_audio_segment sine (PyInt 22000) d
   \<and> generate_tone sine (PyFloat NegInf) d = to_audio_segment sine (PyInt 18000) d
   \<and> thz_to_hz rnd (PyFloat NaN) = Inl (InvalidFrequency (PyFloat NaN))
   \<and> thz_to_hz rnd (PyStr s) = Inl (InvalidFrequency (PyStr s))
   \<and> thz_to_hz rnd PyNone = Inl (InvalidFrequency PyNone)"
  by (simp add: thz_to_hz_def generate_tone_def clamp_unfold py_mul_float_def)

theorem infinity_passes_and_is_clamped_witness:
  "thz_to_hz Fin (PyFloat PosInf) = Inr (PyFloat PosInf)
   \<and> generate_tone sine_at_215 (PyFloat PosInf) 30000 = Inr tone22
   \<and> generate_tone sine_at_215 (PyFloat NegInf) 30000 = Inr tone18"
  using infinity_passes_and_is_clamped [where rnd = Fin and sine = sine_at_215 and d = 30000]
  by (simp add: to_audio_segment_def and_then_def sine_at_215_def SAMPLE_RATE_def
      DEFAULT_VOLUME_def tone22_def tone18_def)

section \<open>The Mix Engine\<close>

subsection \<open>The overlay, sample by sample\<close>

lemma length_overlay_samples: "length (overlay_samples ms ts) = length ms"
  by (induction ms ts rule: overlay_samples.induct) simp_all

lemma nth_overlay_samples:
  "i < length ms \<Longrightarrow>
   overlay_samples ms ts ! i = (if i < length ts then sat16 (ms ! i + ts ! i) else ms ! i)"
proof (induction ms ts arbitrary: i rule: overlay_samples.induct)
  case (3 m ms t ts)
  then show ?case by (cases i) simp_all
qed simp_all

lemma samples_overlay: "samples (overlay m t) = overlay_samples (samples m) (samples t)"
  by (simp add: overlay_def)

lemma length_overlay: "length (samples (overlay m t)) = length (samples m)"
  by (simp add: samples_overlay length_overlay_samples)

lemma nth_overlay:
  "i < length (samples m) \<Longrightarrow>
   samples (overlay m t) ! i =
   (if i < length (samples t) then sat16 (samples m ! i + samples t ! i) else samples m ! i)"
  by (simp add: samples_overlay nth_overlay_samples)

lemma audio_segment_eqI: "samples (a::audio_segment) = samples b \<Longrightarrow> a = b"
  by simp

subsection \<open>The loop as a fold over the tones\<close>

lemma add_frequencies_tones:
  "audio_segment (add_frequencies rnd sine self fs) =
   foldl overlay (audio_segment self) (tones rnd sine fs)"
  by (induction fs arbitrary: self) (simp_all split: sum.split)


lemma length_foldl_overlay: "length (samples (foldl overlay m ts)) = length (samples m)"
  by (induction ts arbitrary: m) (simp_all add: length_overlay)

lemma length_add_frequencies:
  "length (samples (audio_segment (add_frequencies rnd sine self fs))) =
   length (samples (audio_segment self))"
  by (simp add: add_frequencies_tones length_foldl_overlay)

lemma length_init: "length (samples (audio_segment init)) = 1323000"
  by (simp add: init_def silent_def SAMPLE_RATE_def TOTAL_DURATION_SECONDS_def)

lemma init_samples: "i < 1323000 \<Longrightarrow> samples (audio_segment init) ! i = 0"
  by (simp add: init_def silent_def SAMPLE_RATE_def TOTAL_DURATION_SECONDS_def)

subsection \<open>The tones of the example platform\<close>

lemmas tone_unfold =
  tone_of_def thz_to_hz_def py_mul_float_def generate_tone_def to_audio_segment_def
  sine_at_215_def SAMPLE_RATE_def TOTAL_DURATION_SECONDS_def DEFAULT_VOLUME_def

lemma tone_of_1: "tone_of Fin sine_at_215 (PyFloat (Fin 1)) = Inr tone22"
  by (simp add: tone_unfold clamp_unfold tone22_def)

lemma tone_of_0: "tone_of Fin sine_at_215 (PyFloat (Fin 0)) = Inr tone18"
  by (simp add: tone_unfold clamp_unfold tone18_def)

lemma tone_of_mid:
  "tone_of Fin sine_at_215 (PyFloat (Fin (1 / 50000000))) =
   Inl (LibraryError ''frequency not tabulated'')"
  by (simp add: tone_unfold clamp_unfold)


lemma tone22_215: "length (samples tone22) = 1323000" "samples tone22 ! 215 = 10353"
  by (simp_all add: tone22_def)

lemma tone18_215: "length (samples tone18) = 1323000" "samples tone18 ! 215 = - 10356"
  by (simp_all add: tone18_def)

lemma sample_at_tone22: "sample_at tone22 i = (if i = 215 then 10353 else 0)"
  by (simp add: sample_at_def tone22_def)

lemma sample_at_tone18: "sample_at tone18 i = (if i = 215 then - 10356 else 0)"
  by (simp add: sample_at_def tone18_def)

subsection \<open>Failing items\<close>



subsection \<open>The length of the buffer\<close>



subsection \<open>Sums that are not clipped\<close>

lemma sat16_id: "\<bar>v\<bar> \<le> 32767 \<Longrightarrow> sat16 v = v"
  unfolding sat16_def by arith


lemma sum_abs_nonneg: "0 \<le> (\<Sum>t\<leftarrow>ts. \<bar>sample_at t i\<bar>)"
  by (rule sum_list_nonneg) auto

lemma overlay_sample_exact:
  assumes "i < length (samples m)" and "\<bar>samples m ! i\<bar> + \<bar>sample_at t i\<bar> \<le> 32767"
  shows "samples (overlay m t) ! i = samples m ! i + sample_at t i"
proof -
  have "\<bar>samples m ! i + sample_at t i\<bar> \<le> 32767"
    using assms(2) by linarith
  then show ?thesis
    using assms(1) by (auto simp: nth_overlay sample_at_def sat16_id)
qed

lemma headroom_step:
  assumes "headroom m (t # ts)"
  shows "headroom (overlay m t) ts"
  unfolding headroom_def
proof (intro allI impI)
  fix i assume "i < length (samples (overlay m t))"
  then have i: "i < length (samples m)" by (simp add: length_overlay)
  with assms have b:
    "\<bar>samples m ! i\<bar> + (\<bar>sample_at t i\<bar> + (\<Sum>u\<leftarrow>ts. \<bar>sample_at u i\<bar>)) \<le> 32767"
    by (simp add: headroom_def)
  have nn: "0 \<le> (\<Sum>u\<leftarrow>ts. \<bar>sample_at u i\<bar>)" by (rule sum_abs_nonneg)
  from b nn have "\<bar>samples m ! i\<bar> + \<bar>sample_at t i\<bar> \<le> 32767" by linarith
  from overlay_sample_exact [OF i this] b
  show "\<bar>samples (overlay m t) ! i\<bar> + (\<Sum>u\<leftarrow>ts. \<bar>sample_at u i\<bar>) \<le> 32767"
    by linarith
qed

lemma foldl_overlay_exact:
  "headroom m ts \<Longrightarrow> i < length (samples m) \<Longrightarrow>
   samples (foldl overlay m ts) ! i = samples m ! i + (\<Sum>t\<leftarrow>ts. sample_at t i)"
proof (induction ts arbitrary: m)
  case Nil
  then show ?case by simp
next
  case (Cons t ts)
  have i': "i < length (samples (overlay m t))"
    using Cons.prems(2) by (simp add: length_overlay)
  from Cons.prems have b:
    "\<bar>samples m ! i\<bar> + (\<bar>sample_at t i\<bar> + (\<Sum>u\<leftarrow>ts. \<bar>sample_at u i\<bar>)) \<le> 32767"
    by (simp add: headroom_def)
  have nn: "0 \<le> (\<Sum>u\<leftarrow>ts. \<bar>sample_at u i\<bar>)" by (rule sum_abs_nonneg)
  from b nn have "\<bar>samples m ! i\<bar> + \<bar>sample_at t i\<bar> \<le> 32767" by linarith
  from overlay_sample_exact [OF Cons.prems(2) this]
    Cons.IH [OF headroom_step [OF Cons.prems(1)] i']
  show ?case by simp
qed

lemma sum_list_mset_cong:
  fixes f :: "'a \<Rightarrow> int"
  assumes "mset xs = mset ys"
  shows "(\<Sum>x\<leftarrow>xs. f x) = (\<Sum>x\<leftarrow>ys. f x)"
proof -
  have "(\<Sum>x\<leftarrow>xs. f x) = sum_mset (image_mset f (mset xs))"
    by (metis mset_map sum_mset_sum_list)
  also have "\<dots> = sum_mset (image_mset f (mset ys))" using assms by simp
  also have "\<dots> = (\<Sum>x\<leftarrow>ys. f x)" by (metis mset_map sum_mset_sum_list)
  finally show ?thesis .
qed

lemma tones_filter:
  "tones rnd sine fs =
   map (\<lambda>thz. projr (tone_of rnd sine thz)) (filter (\<lambda>thz. \<not> isl (tone_of rnd sine thz)) fs)"
  by (induction fs) (simp_all split: sum.split)

lemma mset_tones:
  "mset fs' = mset fs \<Longrightarrow> mset (tones rnd sine fs') = mset (tones rnd sine fs)"
  by (simp add: tones_filter)

lemma headroom_mset: "mset ts' = mset ts \<Longrightarrow> headroom m ts \<Longrightarrow> headroom m ts'"
  unfolding headroom_def using sum_list_mset_cong [of ts' ts] by simp

lemma headroom_example:
  "headroom (audio_segment init) (tones Fin sine_at_215 [PyFloat (Fin 1), PyFloat (Fin 0)])"
  by (simp add: headroom_def tone_of_1 tone_of_0 length_init init_samples
      sample_at_tone22 sample_at_tone18)

subsection \<open>The overlay of the specification\<close>







subsection \<open>The order of the list\<close>

text \<open>
  Claim C3, as amended. The buffer does not depend on the order of the list as long as
  nothing is clipped: for every list of frequencies whose tones leave headroom in the
  buffer (at every index the magnitudes of the buffer's sample and of the tones' samples
  add up to at most 32767) and every permutation of that list, \<^verbatim>\<open>add_frequencies\<close> leaves
  the same buffer, sample for sample.
\<close>

theorem add_frequencies_order_independent_with_headroom:
  assumes "mset fs' = mset fs" and "headroom (audio_segment self) (tones rnd sine fs)"
  shows "audio_segment (add_frequencies rnd sine self fs') =
         audio_segment (add_frequencies rnd sine self fs)"
proof (rule audio_segment_eqI, rule nth_equalityI)
  show "length (samples (audio_segment (add_frequencies rnd sine self fs'))) =
        length (samples (audio_segment (add_frequencies rnd sine self fs)))"
    by (simp add: length_add_frequencies)
next
  fix i assume "i < length (samples (audio_segment (add_frequencies rnd sine self fs')))"
  then have i: "i < length (samples (audio_segment self))"
    by (simp add: length_add_frequencies)
  have ms: "mset (tones rnd sine fs') = mset (tones rnd sine fs)"
    by (rule mset_tones [OF assms(1)])
  have h': "headroom (audio_segment self) (tones rnd sine fs')"
    by (rule headroom_mset [OF ms assms(2)])
  show "samples (audio_segment (add_frequencies rnd sine self fs')) ! i =
        samples (audio_segment (add_frequencies rnd sine self fs)) ! i"
    by (simp add: add_frequencies_tones foldl_overlay_exact [OF h' i]
        foldl_overlay_exact [OF assms(2) i] sum_list_mset_cong [OF ms])
qed

theorem add_frequencies_order_independent_with_headroom_witness:
  "headroom (audio_segment init) (tones Fin sine_at_215 [PyFloat (Fin 1), PyFloat (Fin 0)])
   \<and> audio_segment (add_frequencies Fin sine_at_215 init [PyFloat (Fin 0), PyFloat (Fin 1)]) =
     audio_segment (add_frequencies Fin sine_at_215 init [PyFloat (Fin 1), PyFloat (Fin 0)])"
proof -
  have p: "mset [PyFloat (Fin 0), PyFloat (Fin 1)] = mset [PyFloat (Fin 1), PyFloat (Fin 0)]"
    by simp
  show ?thesis
    using headroom_example
      add_frequencies_order_independent_with_headroom [OF p headroom_example]
    by simp
qed

text \<open>
  The claim as it was stated fails. Four items that clamp to 22000 Hz and one that clamps
  to 18000 Hz, on the example platform: with the 18000 Hz item last, the sum of the four
  is clipped to 32767 before \<open>-10356\<close> is added; with it first, nothing is clipped.
  Sample 215 of the buffer is 22411 in one order and 31056 in the other.
\<close>

theorem add_frequencies_order_matters_when_clipped:
  "mset [PyFloat (Fin 0), PyFloat (Fin 1), PyFloat (Fin 1), PyFloat (Fin 1), PyFloat (Fin 1)] =
   mset [PyFloat (Fin 1), PyFloat (Fin 1), PyFloat (Fin 1), PyFloat (Fin 1), PyFloat (Fin 0)]
   \<and> samples (audio_segment (add_frequencies Fin sine_at_215 init
        [PyFloat (Fin 1), PyFloat (Fin 1), PyFloat (Fin 1), PyFloat (Fin 1), PyFloat (Fin 0)])) ! 215
       = 22411
   \<and> samples (audio_segment (add_frequencies Fin sine_at_215 init
        [PyFloat (Fin 0), PyFloat (Fin 1), PyFloat (Fin 1), PyFloat (Fin 1), PyFloat (Fin 1)])) ! 215
       = 31056"
  by (simp add: tone_of_1 tone_of_0 nth_overlay length_overlay length_init
      tone22_215 tone18_215 init_samples sat16_def)

subsection \<open>Clipping during accumulation\<close>




section \<open>The Exporter\<close>

lemma seg_len_1323000: "length (samples s) = 1323000 \<Longrightarrow> seg_len s = 30000"
  by (simp add: seg_len_def round_half_even_def SAMPLE_RATE_def Let_def)

lemma seg_len_init: "seg_len (audio_segment init) = 30000"
  by (rule seg_len_1323000) (rule length_init)

lemma seg_len_init_mix: "seg_len (audio_segment (add_frequencies rnd sine init fs)) = 30000"
  by (rule seg_len_1323000) (simp add: length_add_frequencies length_init)

text \<open>
  Claim C5, as amended. \<^verbatim>\<open>save_audio\<close> raises the no-audio-data \<^verbatim>\<open>ValueError\<close> when the
  buffer is 0 ms long (and the directory could be made). The buffer of a generator is
  30000 ms long from \<^verbatim>\<open>__init__\<close> on, whatever list \<^verbatim>\<open>add_frequencies\<close> was given, the
  empty list and a list whose items all fail included: exporting it passes the guard, the
  encoder is run, and the result is that of the encoder and of the check that the file
  exists.
\<close>

theorem save_audio_rejects_only_zero_length:
  "(os_makedirs (dirname p) fs = Inr fs1 \<and> seg_len (audio_segment self) = 0 \<longrightarrow>
      save_audio os_makedirs export self p fs = Inl NoAudioData)
   \<and> seg_len (audio_segment (add_frequencies rnd sine init freqs)) = 30000
   \<and> (os_makedirs (dirname p) fs = Inr fs1 \<longrightarrow>
        save_audio os_makedirs export (add_frequencies rnd sine init freqs) p fs =
        and_then (export (audio_segment (add_frequencies rnd sine init freqs)) p fs1)
          (\<lambda>fs2. if fs2 p = None then Inl (AudioNotCreated p) else Inr fs2))"
  by (simp add: save_audio_def and_then_def seg_len_init_mix)

theorem save_audio_rejects_only_zero_length_witness:
  "save_audio easy_makedirs (writing_exporter 4096) \<lparr>audio_segment = \<lparr>samples = []\<rparr>\<rparr>
     ''output/Unknown/a.mp3'' Map.empty = Inl NoAudioData
   \<and> seg_len (audio_segment (add_frequencies Fin sine_at_215 init [PyFloat NaN])) = 30000
   \<and> save_audio easy_makedirs (writing_exporter 4096)
       (add_frequencies Fin sine_at_215 init [PyFloat NaN])
       ''output/Unknown/a.mp3'' Map.empty = Inr [''output/Unknown/a.mp3'' \<mapsto> 4096]"
proof -
  have e: "seg_len (audio_segment \<lparr>audio_segment = \<lparr>samples = []\<rparr>\<rparr>) = 0"
    by (simp add: seg_len_def round_half_even_def SAMPLE_RATE_def)
  have m: "easy_makedirs (dirname ''output/Unknown/a.mp3'') Map.empty = Inr Map.empty"
    by (simp add: easy_makedirs_def)
  show ?thesis
    using e m
      save_audio_rejects_only_zero_length
        [where os_makedirs = easy_makedirs and p = "''output/Unknown/a.mp3''"
           and fs = Map.empty and ?fs1.0 = Map.empty
           and self = "\<lparr>audio_segment = \<lparr>samples = []\<rparr>\<rparr>"
           and export = "writing_exporter 4096" and rnd = Fin and sine = sine_at_215
           and freqs = "[PyFloat NaN]"]
    by (simp add: and_then_def writing_exporter_def del: add_frequencies.simps)
qed

text \<open>
  The claim as it was stated fails. The buffer of a new generator, to which no frequency
  was added, is exported: no exception, and the artifact is there.
\<close>

theorem silent_buffer_is_exported:
  "save_audio easy_makedirs (writing_exporter 4096) init ''output/Unknown/a.mp3'' Map.empty =
     Inr [''output/Unknown/a.mp3'' \<mapsto> 4096]"
  by (simp add: save_audio_def and_then_def easy_makedirs_def writing_exporter_def seg_len_init)

text \<open>
  Claim C8, as amended. After encoding, \<^verbatim>\<open>save_audio\<close> verifies that the artifact exists:
  when it returns without an exception the file is there, and when the encoder returned
  without having written the file it raises the not-created \<^verbatim>\<open>RuntimeError\<close>. The size
  of the file is not verified: when the file is there, whatever its size \<open>n\<close>,
  \<^verbatim>\<open>save_audio\<close> returns without an exception.
\<close>

theorem save_audio_verifies_existence_only:
  "(save_audio os_makedirs export self p fs = Inr fs2 \<longrightarrow> fs2 p \<noteq> None)
   \<and> (os_makedirs (dirname p) fs = Inr fs1 \<and> seg_len (audio_segment self) \<noteq> 0
        \<and> export (audio_segment self) p fs1 = Inr fs3 \<and> fs3 p = None \<longrightarrow>
        save_audio os_makedirs export self p fs = Inl (AudioNotCreated p))
   \<and> (os_makedirs (dirname p) fs = Inr fs1 \<and> seg_len (audio_segment self) \<noteq> 0
        \<and> export (audio_segment self) p fs1 = Inr fs3 \<and> fs3 p = Some n \<longrightarrow>
        save_audio os_makedirs export self p fs = Inr fs3)"
  by (auto simp: save_audio_def and_then_def split: sum.splits if_splits)

theorem save_audio_verifies_existence_only_witness:
  "save_audio easy_makedirs idle_exporter init ''output/Unknown/a.mp3'' Map.empty =
     Inl (AudioNotCreated ''output/Unknown/a.mp3'')
   \<and> save_audio easy_makedirs (writing_exporter 7) init ''output/Unknown/a.mp3'' Map.empty =
     Inr [''output/Unknown/a.mp3'' \<mapsto> 7]"
proof -
  have m: "easy_makedirs (dirname ''output/Unknown/a.mp3'') Map.empty = Inr Map.empty"
    by (simp add: easy_makedirs_def)
  have l: "seg_len (audio_segment init) \<noteq> 0" by (simp add: seg_len_init)
  have i: "idle_exporter (audio_segment init) ''output/Unknown/a.mp3'' Map.empty = Inr Map.empty"
    by (simp add: idle_exporter_def)
  have w: "writing_exporter 7 (audio_segment init) ''output/Unknown/a.mp3'' Map.empty =
           Inr [''output/Unknown/a.mp3'' \<mapsto> 7]"
    by (simp add: writing_exporter_def)
  from save_audio_verifies_existence_only
    [where os_makedirs = easy_makedirs and export = idle_exporter and self = init
       and p = "''output/Unknown/a.mp3''" and fs = Map.empty and ?fs1.0 = Map.empty
       and ?fs3.0 = Map.empty]
  have a: "save_audio easy_makedirs idle_exporter init ''output/Unknown/a.mp3'' Map.empty =
           Inl (AudioNotCreated ''output/Unknown/a.mp3'')"
    using m l i by simp
  from save_audio_verifies_existence_only
    [where os_makedirs = easy_makedirs and export = "writing_exporter 7" and self = init
       and p = "''output/Unknown/a.mp3''" and fs = Map.empty and ?fs1.0 = Map.empty
       and ?fs2.0 = "[''output/Unknown/a.mp3'' \<mapsto> 7]"
       and ?fs3.0 = "[''output/Unknown/a.mp3'' \<mapsto> 7]" and n = 7]
  have b: "save_audio easy_makedirs (writing_exporter 7) init ''output/Unknown/a.mp3'' Map.empty =
           Inr [''output/Unknown/a.mp3'' \<mapsto> 7]"
    using m l w by simp
  from a b show ?thesis by blast
qed

text \<open>
  The claim as it was stated fails. The encoder of the example platform writes a file of
  zero bytes; \<^verbatim>\<open>save_audio\<close> returns without an exception, the empty file in place.
\<close>

theorem empty_artifact_is_accepted:
  "save_audio (the_makedirs example_platform) (the_exporter example_platform)
     (add_frequencies Fin sine_at_215 init [PyFloat (Fin 1)]) ''output/Unknown/a.mp3'' Map.empty =
     Inr [''output/Unknown/a.mp3'' \<mapsto> 0]"
  by (simp add: save_audio_def and_then_def example_platform_def easy_makedirs_def
      writing_exporter_def seg_len_init_mix del: add_frequencies.simps)

section \<open>The statistics of the result\<close>

lemma fle_refl: "x \<noteq> NaN \<Longrightarrow> fle x x"
  by (cases x) (simp_all add: fle_def)

lemma fle_trans: "fle x y \<Longrightarrow> fle y z \<Longrightarrow> fle x z"
  by (cases x; cases y; cases z) (auto simp: fle_def)

lemma not_flt_fle: "x \<noteq> NaN \<Longrightarrow> y \<noteq> NaN \<Longrightarrow> \<not> flt y x \<Longrightarrow> fle x y"
  by (simp add: fle_def)

lemma flt_fle: "x \<noteq> NaN \<Longrightarrow> y \<noteq> NaN \<Longrightarrow> flt x y \<Longrightarrow> fle x y"
  by (cases x; cases y) (auto simp: fle_def)

lemma foldl_min_least:
  "NaN \<notin> set (a # rest) \<Longrightarrow>
   foldl (\<lambda>a b. if flt b a then b else a) a rest \<in> set (a # rest)
   \<and> (\<forall>x \<in> set (a # rest). fle (foldl (\<lambda>a b. if flt b a then b else a) a rest) x)"
proof (induction rest arbitrary: a)
  case Nil
  then show ?case by (simp add: fle_refl)
next
  case (Cons b rest)
  let ?a' = "if flt b a then b else a"
  let ?r = "foldl (\<lambda>a b. if flt b a then b else a) ?a' rest"
  from Cons.prems have nn: "a \<noteq> NaN" "b \<noteq> NaN" "NaN \<notin> set rest" by auto
  then have "NaN \<notin> set (?a' # rest)" by auto
  from Cons.IH [OF this] have mem: "?r \<in> set (?a' # rest)"
    and least: "\<forall>x \<in> set (?a' # rest). fle ?r x" by blast+
  from least have ra': "fle ?r ?a'" by simp
  have a'a: "fle ?a' a" using nn by (simp add: flt_fle fle_refl)
  have a'b: "fle ?a' b" using nn by (simp add: not_flt_fle fle_refl)
  have "fle ?r a" by (rule fle_trans [OF ra' a'a])
  moreover have "fle ?r b" by (rule fle_trans [OF ra' a'b])
  moreover have "?r \<in> set (a # b # rest)" using mem by auto
  ultimately show ?case using least by simp
qed

lemma foldl_max_greatest:
  "NaN \<notin> set (a # rest) \<Longrightarrow>
   foldl (\<lambda>a b. if flt a b then b else a) a rest \<in> set (a # rest)
   \<and> (\<forall>x \<in> set (a # rest). fle x (foldl (\<lambda>a b. if flt a b then b else a) a rest))"
proof (induction rest arbitrary: a)
  case Nil
  then show ?case by (simp add: fle_refl)
next
  case (Cons b rest)
  let ?a' = "if flt a b then b else a"
  let ?r = "foldl (\<lambda>a b. if flt a b then b else a) ?a' rest"
  from Cons.prems have nn: "a \<noteq> NaN" "b \<noteq> NaN" "NaN \<notin> set rest" by auto
  then have "NaN \<notin> set (?a' # rest)" by auto
  from Cons.IH [OF this] have mem: "?r \<in> set (?a' # rest)"
    and greatest: "\<forall>x \<in> set (?a' # rest). fle x ?r" by blast+
  from greatest have a'r: "fle ?a' ?r" by simp
  have aa': "fle a ?a'" using nn by (simp add: flt_fle fle_refl)
  have ba': "fle b ?a'" using nn by (simp add: not_flt_fle fle_refl)
  have "fle a ?r" by (rule fle_trans [OF aa' a'r])
  moreover have "fle b ?r" by (rule fle_trans [OF ba' a'r])
  moreover have "?r \<in> set (a # b # rest)" using mem by auto
  ultimately show ?case using greatest by simp
qed

lemma np_min_least:
  assumes "NaN \<notin> set xs" and "np_min xs = Inr lo"
  shows "lo \<in> set xs \<and> (\<forall>x \<in> set xs. fle lo x)"
proof (cases xs)
  case Nil
  with assms show ?thesis by (simp add: np_min_def)
next
  case (Cons a rest)
  with assms have "lo = foldl (\<lambda>a b. if flt b a then b else a) a rest"
    by (auto simp: np_min_def)
  with foldl_min_least [of a rest] assms(1) Cons show ?thesis by simp
qed

lemma np_max_greatest:
  assumes "NaN \<notin> set xs" and "np_max xs = Inr hi"
  shows "hi \<in> set xs \<and> (\<forall>x \<in> set xs. fle x hi)"
proof (cases xs)
  case Nil
  with assms show ?thesis by (simp add: np_max_def)
next
  case (Cons a rest)
  with assms have "hi = foldl (\<lambda>a b. if flt a b then b else a) a rest"
    by (auto simp: np_max_def)
  with foldl_max_greatest [of a rest] assms(1) Cons show ?thesis by simp
qed

lemma np_min_returns: "xs \<noteq> [] \<Longrightarrow> \<exists>lo. np_min xs = Inr lo"
  by (cases xs) (simp_all add: np_min_def)

lemma np_max_returns: "xs \<noteq> [] \<Longrightarrow> \<exists>hi. np_max xs = Inr hi"
  by (cases xs) (simp_all add: np_max_def)

lemma read_with_clean:
  "read_with rd path engine = Inr freqs \<Longrightarrow> NaN \<notin> set freqs \<and> freqs \<noteq> []"
  by (auto simp: read_with_def and_then_def Let_def split: sum.splits option.splits if_splits)

lemma try_engines_clean:
  "try_engines rd path engines last_error = Inr freqs \<Longrightarrow> NaN \<notin> set freqs \<and> freqs \<noteq> []"
proof (induction engines arbitrary: last_error)
  case Nil
  then show ?case by simp
next
  case (Cons engine engines)
  show ?case
  proof (cases "read_with rd path engine")
    case (Inl e)
    with Cons show ?thesis by simp
  next
    case (Inr fs)
    with Cons.prems have "fs = freqs" by simp
    with Inr read_with_clean show ?thesis by blast
  qed
qed

lemma load_frequencies_clean:
  "load_frequencies rd path fs = Inr freqs \<Longrightarrow> NaN \<notin> set freqs \<and> freqs \<noteq> []"
proof -
  assume "load_frequencies rd path fs = Inr freqs"
  then have "try_engines rd path [''openpyxl'', ''xlrd''] None = Inr freqs"
    unfolding load_frequencies_def by (cases "fs path = None") simp_all
  then show ?thesis by (rule try_engines_clean)
qed

lemma company_example: "company_of ''batch_7_Acme.xlsx'' = ''Acme''"
  by (simp add: company_of_def)

lemma load_example:
  "load_frequencies (the_reader example_platform) ''in.xlsx'' [''in.xlsx'' \<mapsto> 100] =
   Inr [Fin 1, Fin (1 / 50000000), Fin 0]"
  by (simp add: load_frequencies_def read_with_def and_then_def example_platform_def
      REQUIRED_EXCEL_COLUMN_def)

lemma main_example:
  "main example_platform ''in.xlsx'' ''batch_7_Acme.xlsx'' ''0123456789'' [''in.xlsx'' \<mapsto> 100] =
   Inr (\<lparr>frequency_count = 3,
         audio_file = ''NeuroAudio_Acme_0123456789.mp3'',
         pdf_file = ''Report_Acme_0123456789.pdf'',
         frequency_min = Fin 0,
         frequency_max = Fin 1,
         aroma_id = ''0123456789'',
         company_name = ''Acme''\<rparr>,
        add_frequencies Fin sine_at_215 init
          [PyFloat (Fin 1), PyFloat (Fin (1 / 50000000)), PyFloat (Fin 0)])"
proof -
  have P: "the_makedirs example_platform = easy_makedirs"
    "the_rounding example_platform = Fin" "the_sine example_platform = sine_at_215"
    "the_exporter example_platform = writing_exporter 0"
    "the_pdf_reporter example_platform =
       (\<lambda>freqs name ident company dir fs. Inr (fs(os_path_join dir name \<mapsto> 1)))"
    by (simp_all add: example_platform_def)
  show ?thesis
    unfolding main_def company_example
    by (simp add: P load_example and_then_def Let_def save_audio_def seg_len_init_mix
        easy_makedirs_def writing_exporter_def np_min_def np_max_def
        del: add_frequencies.simps)
qed

lemma tones_example:
  "tones Fin sine_at_215 [PyFloat (Fin 1), PyFloat (Fin (1 / 50000000)), PyFloat (Fin 0)] =
   [tone22, tone18]"
  by (simp add: tone_of_1 tone_of_mid tone_of_0)

text \<open>
  Claim C4. The statistics that \<^verbatim>\<open>main\<close> prints are those of the list that
  \<^verbatim>\<open>load_frequencies\<close> returned, which is not empty: whenever \<^verbatim>\<open>main\<close> prints a result,
  \<^verbatim>\<open>frequency_count\<close> is the length of that list, however many of its items were
  overlaid and however many skipped, \<^verbatim>\<open>frequency_min\<close> is an element of the list below
  all its elements, and \<^verbatim>\<open>frequency_max\<close> an element above all of them: values as they
  were loaded, in terahertz, neither converted nor clamped. And \<^verbatim>\<open>main\<close> does print such
  a result whenever the directory, the loading, the export and the report succeed.
\<close>

theorem result_statistics_from_loaded_list:
  fixes P :: platform and original_name new_id :: string
  defines "dir \<equiv> os_path_join ''output'' (company_of original_name)"
  defines "audio_name \<equiv> ''NeuroAudio_'' @ company_of original_name @ ''_'' @ new_id @ ''.mp3''"
  defines "pdf_name \<equiv> ''Report_'' @ company_of original_name @ ''_'' @ new_id @ ''.pdf''"
  shows
  "(main P excel_path original_name new_id fs = Inr (r, gen) \<longrightarrow>
      (\<exists>fs1 freqs.
           the_makedirs P dir fs = Inr fs1
         \<and> load_frequencies (the_reader P) excel_path fs1 = Inr freqs
         \<and> freqs \<noteq> []
         \<and> gen = add_frequencies (the_rounding P) (the_sine P) init (map PyFloat freqs)
         \<and> length (tones (the_rounding P) (the_sine P) (map PyFloat freqs)) \<le> length freqs
         \<and> frequency_count r = length freqs
         \<and> frequency_min r \<in> set freqs \<and> (\<forall>x \<in> set freqs. fle (frequency_min r) x)
         \<and> frequency_max r \<in> set freqs \<and> (\<forall>x \<in> set freqs. fle x (frequency_max r))))
   \<and> (the_makedirs P dir fs = Inr fs1
       \<and> load_frequencies (the_reader P) excel_path fs1 = Inr freqs
       \<and> save_audio (the_makedirs P) (the_exporter P)
           (add_frequencies (the_rounding P) (the_sine P) init (map PyFloat freqs))
           (os_path_join dir audio_name) fs1 = Inr fs2
       \<and> the_pdf_reporter P (map PyFloat freqs) pdf_name new_id (company_of original_name)
           dir fs2 = Inr fs3 \<longrightarrow>
       (\<exists>r'. main P excel_path original_name new_id fs =
               Inr (r', add_frequencies (the_rounding P) (the_sine P) init (map PyFloat freqs))
            \<and> frequency_count r' = length freqs))"
proof (intro conjI impI)
  assume m: "main P excel_path original_name new_id fs = Inr (r, gen)"
  then obtain fs1 freqs lo hi where
    mk: "the_makedirs P dir fs = Inr fs1"
    and ld: "load_frequencies (the_reader P) excel_path fs1 = Inr freqs"
    and lo: "np_min freqs = Inr lo" and hi: "np_max freqs = Inr hi"
    and r: "frequency_count r = length freqs" "frequency_min r = lo" "frequency_max r = hi"
    and g: "gen = add_frequencies (the_rounding P) (the_sine P) init (map PyFloat freqs)"
    by (auto simp: main_def dir_def and_then_def Let_def split: sum.splits)
  from load_frequencies_clean [OF ld] have clean: "NaN \<notin> set freqs" and ne: "freqs \<noteq> []"
    by simp_all
  have "length (tones (the_rounding P) (the_sine P) (map PyFloat freqs)) \<le> length freqs"
    by (simp add: tones_filter)
  with mk ld ne g r np_min_least [OF clean lo] np_max_greatest [OF clean hi]
  show "\<exists>fs1 freqs.
           the_makedirs P dir fs = Inr fs1
         \<and> load_frequencies (the_reader P) excel_path fs1 = Inr freqs
         \<and> freqs \<noteq> []
         \<and> gen = add_frequencies (the_rounding P) (the_sine P) init (map PyFloat freqs)
         \<and> length (tones (the_rounding P) (the_sine P) (map PyFloat freqs)) \<le> length freqs
         \<and> frequency_count r = length freqs
         \<and> frequency_min r \<in> set freqs \<and> (\<forall>x \<in> set freqs. fle (frequency_min r) x)
         \<and> frequency_max r \<in> set freqs \<and> (\<forall>x \<in> set freqs. fle x (frequency_max r))"
    by blast
next
  assume a: "the_makedirs P dir fs = Inr fs1
       \<and> load_frequencies (the_reader P) excel_path fs1 = Inr freqs
       \<and> save_audio (the_makedirs P) (the_exporter P)
           (add_frequencies (the_rounding P) (the_sine P) init (map PyFloat freqs))
           (os_path_join dir audio_name) fs1 = Inr fs2
       \<and> the_pdf_reporter P (map PyFloat freqs) pdf_name new_id (company_of original_name)
           dir fs2 = Inr fs3"
  then have ld: "load_frequencies (the_reader P) excel_path fs1 = Inr freqs" by simp
  from load_frequencies_clean [OF ld] have ne: "freqs \<noteq> []" by simp
  from np_min_returns [OF ne] obtain lo where lo: "np_min freqs = Inr lo" by blast
  from np_max_returns [OF ne] obtain hi where hi: "np_max freqs = Inr hi" by blast
  from a lo hi
  show "\<exists>r'. main P excel_path original_name new_id fs =
               Inr (r', add_frequencies (the_rounding P) (the_sine P) init (map PyFloat freqs))
            \<and> frequency_count r' = length freqs"
    by (simp add: main_def dir_def audio_name_def pdf_name_def and_then_def Let_def)
qed

theorem result_statistics_from_loaded_list_witness:
  "main example_platform ''in.xlsx'' ''batch_7_Acme.xlsx'' ''0123456789'' [''in.xlsx'' \<mapsto> 100] =
   Inr (\<lparr>frequency_count = 3,
         audio_file = ''NeuroAudio_Acme_0123456789.mp3'',
         pdf_file = ''Report_Acme_0123456789.pdf'',
         frequency_min = Fin 0,
         frequency_max = Fin 1,
         aroma_id = ''0123456789'',
         company_name = ''Acme''\<rparr>,
        add_frequencies Fin sine_at_215 init
          [PyFloat (Fin 1), PyFloat (Fin (1 / 50000000)), PyFloat (Fin 0)])
   \<and> length (tones Fin sine_at_215
        [PyFloat (Fin 1), PyFloat (Fin (1 / 50000000)), PyFloat (Fin 0)]) = 2
   \<and> (\<exists>freqs.
        load_frequencies (the_reader example_platform) ''in.xlsx'' [''in.xlsx'' \<mapsto> 100] =
          Inr freqs
      \<and> length freqs = 3 \<and> Fin 0 \<in> set freqs \<and> Fin 1 \<in> set freqs
      \<and> list_all (\<lambda>x. fle (Fin 0) x \<and> fle x (Fin 1)) freqs)
   \<and> (\<exists>r'. main example_platform ''in.xlsx'' ''batch_7_Acme.xlsx'' ''0123456789''
             [''in.xlsx'' \<mapsto> 100] =
           Inr (r', add_frequencies Fin sine_at_215 init
                  [PyFloat (Fin 1), PyFloat (Fin (1 / 50000000)), PyFloat (Fin 0)])
         \<and> frequency_count r' = 3)"
proof -
  let ?r = "\<lparr>frequency_count = 3,
         audio_file = ''NeuroAudio_Acme_0123456789.mp3'',
         pdf_file = ''Report_Acme_0123456789.pdf'',
         frequency_min = Fin 0,
         frequency_max = Fin 1,
         aroma_id = ''0123456789'',
         company_name = ''Acme''\<rparr>"
  let ?g = "add_frequencies Fin sine_at_215 init
          [PyFloat (Fin 1), PyFloat (Fin (1 / 50000000)), PyFloat (Fin 0)]"
  have mk: "the_makedirs example_platform dir fs = Inr fs" for dir fs
    by (simp add: example_platform_def easy_makedirs_def)
  from result_statistics_from_loaded_list
    [where P = example_platform and excel_path = "''in.xlsx''"
       and original_name = "''batch_7_Acme.xlsx''" and new_id = "''0123456789''"
       and fs = "[''in.xlsx'' \<mapsto> 100]" and r = ?r and gen = ?g]
    main_example
  obtain fs1 freqs where
    "the_makedirs example_platform
       (os_path_join ''output'' (company_of ''batch_7_Acme.xlsx'')) [''in.xlsx'' \<mapsto> 100] = Inr fs1"
    and "load_frequencies (the_reader example_platform) ''in.xlsx'' fs1 = Inr freqs"
    and "frequency_count ?r = length freqs"
    and "frequency_min ?r \<in> set freqs" and "\<forall>x \<in> set freqs. fle (frequency_min ?r) x"
    and "frequency_max ?r \<in> set freqs" and "\<forall>x \<in> set freqs. fle x (frequency_max ?r)"
    by blast
  then have "load_frequencies (the_reader example_platform) ''in.xlsx'' [''in.xlsx'' \<mapsto> 100] =
          Inr freqs
      \<and> length freqs = 3 \<and> Fin 0 \<in> set freqs \<and> Fin 1 \<in> set freqs
      \<and> list_all (\<lambda>x. fle (Fin 0) x \<and> fle x (Fin 1)) freqs"
    by (simp add: mk list_all_iff)
  note backward = this
  let ?fs2 = "[''in.xlsx'' \<mapsto> 100, ''output/Acme/NeuroAudio_Acme_0123456789.mp3'' \<mapsto> 0]"
  have P: "the_rounding example_platform = Fin" "the_sine example_platform = sine_at_215"
    by (simp_all add: example_platform_def)
  have sv: "save_audio (the_makedirs example_platform) (the_exporter example_platform) ?g
      (os_path_join (os_path_join ''output'' (company_of ''batch_7_Acme.xlsx''))
         (''NeuroAudio_'' @ company_of ''batch_7_Acme.xlsx'' @ ''_'' @ ''0123456789'' @ ''.mp3''))
      [''in.xlsx'' \<mapsto> 100] = Inr ?fs2"
    unfolding company_example
    by (simp add: save_audio_def and_then_def example_platform_def easy_makedirs_def
        writing_exporter_def seg_len_init_mix os_path_join_def del: add_frequencies.simps)
  have pdf: "the_pdf_reporter example_platform
      (map PyFloat [Fin 1, Fin (1 / 50000000), Fin 0])
      (''Report_'' @ company_of ''batch_7_Acme.xlsx'' @ ''_'' @ ''0123456789'' @ ''.pdf'')
      ''0123456789'' (company_of ''batch_7_Acme.xlsx'')
      (os_path_join ''output'' (company_of ''batch_7_Acme.xlsx'')) ?fs2 =
      Inr (?fs2(''output/Acme/Report_Acme_0123456789.pdf'' \<mapsto> 1))"
    unfolding company_example
    by (simp add: example_platform_def os_path_join_def)
  from result_statistics_from_loaded_list
    [where P = example_platform and excel_path = "''in.xlsx''"
       and original_name = "''batch_7_Acme.xlsx''" and new_id = "''0123456789''"
       and fs = "[''in.xlsx'' \<mapsto> 100]" and ?fs1.0 = "[''in.xlsx'' \<mapsto> 100]"
       and freqs = "[Fin 1, Fin (1 / 50000000), Fin 0]" and ?fs2.0 = ?fs2
       and ?fs3.0 = "?fs2(''output/Acme/Report_Acme_0123456789.pdf'' \<mapsto> 1)"]
    mk load_example sv pdf
  have "\<exists>r'. main example_platform ''in.xlsx'' ''batch_7_Acme.xlsx'' ''0123456789''
             [''in.xlsx'' \<mapsto> 100] = Inr (r', ?g)
         \<and> frequency_count r' = 3"
    by (simp add: P numeral_3_eq_3 del: add_frequencies.simps)
  with backward main_example tones_example show ?thesis by auto
qed

end
